theory Spec2Isabelle
  imports Complex_Main "HOL-Library.Monad_Syntax" "HOL-Library.Multiset"
begin

section \<open>Aquaculture planning: the monoculture simulator and the mix optimiser\<close>

text \<open>
  The development embeds \<^verbatim>\<open>otimizacao.py\<close>: the class \<^verbatim>\<open>SistemaProdutivo\<close>, the
  function \<^verbatim>\<open>simular_cenarios\<close> and the function \<^verbatim>\<open>otimizar_mix_ideal\<close>.

  Numbers. The Python computes on IEEE doubles (and on integers where \<^verbatim>\<open>int(...)\<close> was
  applied). Here every number is an exact rational (\<^typ>\<open>rat\<close>) or an integer
  (\<^typ>\<open>int\<close>): rounding, infinities and NaN are outside the model, and every statement
  below is about the exact arithmetic the code writes down.

  Exceptions. A Python exception that leaves a function is the value \<open>None\<close>; a normal
  return of \<open>v\<close> is \<open>Some v\<close>. The only exceptions the modelled code can raise on
  well-typed records are \<^verbatim>\<open>ZeroDivisionError\<close> (every \<^verbatim>\<open>/\<close> with a denominator that is
  not a literal) and \<^verbatim>\<open>KeyError\<close> (a sort key read from a record without it).
\<close>

subsection \<open>Python primitives\<close>

definition py_div :: "rat \<Rightarrow> rat \<Rightarrow> rat option" where
  \<comment> \<open>\<^verbatim>\<open>a / b\<close>: true division, raising on a zero denominator.\<close>
  "py_div a b = (if b = 0 then None else Some (a / b))"

definition py_int :: "rat \<Rightarrow> int" where
  \<comment> \<open>\<^verbatim>\<open>int(x)\<close> truncates towards zero.\<close>
  "py_int x = (if 0 \<le> x then \<lfloor>x\<rfloor> else \<lceil>x\<rceil>)"

definition sorted_reverse :: "('a \<Rightarrow> rat option) \<Rightarrow> 'a list \<Rightarrow> 'a list option" where
  \<comment> \<open>\<^verbatim>\<open>sorted(xs, key=key, reverse=True)\<close>: the keys are computed first (one failing
      key raises), then the list is reversed, sorted stably by ascending key, and
      reversed again, so equal keys keep their original order.\<close>
  "sorted_reverse key xs = do {
     ks \<leftarrow> those (map key xs);
     Some (map snd (rev (sort_key fst (rev (zip ks xs)))))
   }"

subsection \<open>Data model\<close>

text \<open>One row of the species table, with the column names \<^verbatim>\<open>ler_tabela\<close> gives it.\<close>

record especie =
  nome :: string
  valor_mercado_kg :: rat
  peso_final_ideal_kg :: rat
  peso_inicial_g :: rat
  taxa_mortalidade :: rat
  densidade_max_kg_m3 :: rat
  conversao_alimentar :: rat
  tempo_ciclo_meses :: rat
  custo_alevino_un :: rat
  custo_racao_kg :: rat

record sistema_produtivo =
  capital_giro :: rat
  qtd_tanques :: int
  vol_por_tanque :: rat
  custo_fixo_mensal :: rat
  volume_total :: rat
  fator_sistema :: rat
  nome_sistema :: string

definition SistemaProdutivo :: "rat \<Rightarrow> int \<Rightarrow> rat \<Rightarrow> rat \<Rightarrow> int \<Rightarrow> sistema_produtivo" where
  \<comment> \<open>\<^verbatim>\<open>SistemaProdutivo.__init__(capital, qtd_tanques, vol_tanque, custo_fixo, sistema_opcao)\<close>\<close>
  "SistemaProdutivo capital qtd vol_tanque custo_fixo sistema_opcao =
     \<lparr> capital_giro = capital,
       qtd_tanques = qtd,
       vol_por_tanque = vol_tanque,
       custo_fixo_mensal = custo_fixo,
       volume_total = of_int qtd * vol_tanque,
       fator_sistema =
         (if sistema_opcao = 1 then 10 / 100
          else if sistema_opcao = 2 then 40 / 100
          else 1),
       nome_sistema =
         (if sistema_opcao = 1 then ''EXTENSIVO''
          else if sistema_opcao = 2 then ''SEMI-INTENSIVO''
          else ''INTENSIVO'') \<rparr>"

datatype motivo = Custo_fixo_excede_capital | Capital_insuficiente

datatype gargalo_t = FINANCEIRO | FISICO

text \<open>The dictionary of a viable scenario (its \<^verbatim>\<open>'status'\<close> is \<^verbatim>\<open>'VIAVEL'\<close>).\<close>

record cenario =
  especie :: string
  dados_tec :: especie
  qtd_povoamento :: int
  biomassa_kg :: rat
  custo_alevinos :: rat
  custo_racao :: rat
  custo_fixo :: rat
  custo_total :: rat
  custo_kg_produzido :: rat
  receita :: rat
  lucro_liquido :: rat
  lucro_mensal :: rat
  roi :: rat
  payback_meses :: rat
  racao_ton :: rat
  ocupacao :: rat
  gargalo :: gargalo_t
  ponto_equilibrio :: rat

text \<open>
  An entry of \<^verbatim>\<open>resultados\<close>: either the three-key dictionary with status
  \<^verbatim>\<open>'INVIAVEL'\<close> (species name and reason), or a viable scenario.
\<close>

datatype resultado = INVIAVEL string motivo | VIAVEL cenario

fun is_viavel :: "resultado \<Rightarrow> bool" where
  \<comment> \<open>\<^verbatim>\<open>r['status'] == 'VIAVEL'\<close>\<close>
  "is_viavel (VIAVEL c) = True"
| "is_viavel (INVIAVEL n m) = False"

fun chave_lucro_mensal :: "resultado \<Rightarrow> rat option" where
  \<comment> \<open>\<^verbatim>\<open>lambda x: x['lucro_mensal']\<close>: the key is absent from an infeasible entry.\<close>
  "chave_lucro_mensal (VIAVEL c) = Some (lucro_mensal c)"
| "chave_lucro_mensal (INVIAVEL n m) = None"

subsection \<open>Per-species quantities (lines 83--107, repeated at lines 187--195)\<close>

definition ganho_peso :: "especie \<Rightarrow> rat" where
  "ganho_peso esp = peso_final_ideal_kg esp - peso_inicial_g esp / 1000"

definition consumo_racao_kg_por_peixe :: "especie \<Rightarrow> rat" where
  "consumo_racao_kg_por_peixe esp = ganho_peso esp * conversao_alimentar esp"

definition custo_alim_un :: "especie \<Rightarrow> rat" where
  "custo_alim_un esp = consumo_racao_kg_por_peixe esp * custo_racao_kg esp"

definition custo_var_unit :: "especie \<Rightarrow> rat" where
  "custo_var_unit esp = custo_alevino_un esp + custo_alim_un esp"

definition custo_fixo_ciclo :: "sistema_produtivo \<Rightarrow> especie \<Rightarrow> rat" where
  "custo_fixo_ciclo sis esp = custo_fixo_mensal sis * tempo_ciclo_meses esp"

definition biomassa_max :: "sistema_produtivo \<Rightarrow> especie \<Rightarrow> rat" where
  "biomassa_max sis esp =
     (let densidade_real_aplicada = densidade_max_kg_m3 esp * fator_sistema sis
      in volume_total sis * densidade_real_aplicada)"

definition max_fisico :: "sistema_produtivo \<Rightarrow> especie \<Rightarrow> int option" where
  "max_fisico sis esp = do {
     q \<leftarrow> py_div (biomassa_max sis esp) (peso_final_ideal_kg esp);
     Some (py_int q)
   }"

definition orcamento_operacional :: "sistema_produtivo \<Rightarrow> especie \<Rightarrow> rat" where
  "orcamento_operacional sis esp = capital_giro sis - custo_fixo_ciclo sis esp"

definition max_financeiro :: "sistema_produtivo \<Rightarrow> especie \<Rightarrow> int option" where
  "max_financeiro sis esp = do {
     q \<leftarrow> py_div (orcamento_operacional sis esp) (custo_var_unit esp);
     Some (py_int q)
   }"

definition peixes_finais :: "int \<Rightarrow> especie \<Rightarrow> int" where
  "peixes_finais qtd_real esp = py_int (of_int qtd_real * (1 - taxa_mortalidade esp))"

subsection \<open>The monoculture simulator\<close>

definition consolidar :: "sistema_produtivo \<Rightarrow> especie \<Rightarrow> int \<Rightarrow> int \<Rightarrow> int \<Rightarrow> resultado option" where
  \<comment> \<open>Lines 117--167: the body of the loop once \<^verbatim>\<open>qtd_real > 0\<close> is known.\<close>
  "consolidar sis esp max_fis max_fin qtd_real = do {
     let biomassa_vendida_kg = of_int (peixes_finais qtd_real esp) * peso_final_ideal_kg esp;
     let investimento_alevinos = of_int qtd_real * custo_alevino_un esp;
     let investimento_racao =
           of_int qtd_real * consumo_racao_kg_por_peixe esp * custo_racao_kg esp;
     let custo_total_ciclo =
           investimento_alevinos + investimento_racao + custo_fixo_ciclo sis esp;
     let receita_bruta = biomassa_vendida_kg * valor_mercado_kg esp;
     let lucro = receita_bruta - custo_total_ciclo;
     custo_producao_por_kg \<leftarrow>
       (if biomassa_vendida_kg > 0 then py_div custo_total_ciclo biomassa_vendida_kg
        else Some 0);
     ponto_equilibrio_kg \<leftarrow> py_div custo_total_ciclo (valor_mercado_kg esp);
     r \<leftarrow> py_div lucro custo_total_ciclo;
     lucro_mes \<leftarrow> py_div lucro (tempo_ciclo_meses esp);
     let racao_total_ton = (of_int qtd_real * consumo_racao_kg_por_peixe esp) / 1000;
     payback \<leftarrow> (if lucro_mes > 0 then py_div custo_total_ciclo lucro_mes else Some 0);
     oc \<leftarrow> py_div (of_int qtd_real) (of_int max_fis);
     Some (VIAVEL
       \<lparr> especie = nome esp,
         dados_tec = esp,
         qtd_povoamento = qtd_real,
         biomassa_kg = biomassa_vendida_kg,
         custo_alevinos = investimento_alevinos,
         custo_racao = investimento_racao,
         custo_fixo = custo_fixo_ciclo sis esp,
         custo_total = custo_total_ciclo,
         custo_kg_produzido = custo_producao_por_kg,
         receita = receita_bruta,
         lucro_liquido = lucro,
         lucro_mensal = lucro_mes,
         roi = r * 100,
         payback_meses = payback,
         racao_ton = racao_total_ton,
         ocupacao = oc * 100,
         gargalo = (if max_fin < max_fis then FINANCEIRO else FISICO),
         ponto_equilibrio = ponto_equilibrio_kg \<rparr>)
   }"

definition simular_especie :: "sistema_produtivo \<Rightarrow> especie \<Rightarrow> resultado option" where
  \<comment> \<open>One iteration of the loop of \<^verbatim>\<open>simular_cenarios\<close>: the entry it appends.\<close>
  "simular_especie sis esp = do {
     max_fis \<leftarrow> max_fisico sis esp;
     if orcamento_operacional sis esp \<le> 0
     then Some (INVIAVEL (nome esp) Custo_fixo_excede_capital)
     else do {
       max_fin \<leftarrow> max_financeiro sis esp;
       let qtd_real = min max_fis max_fin;
       if qtd_real \<le> 0
       then Some (INVIAVEL (nome esp) Capital_insuficiente)
       else consolidar sis esp max_fis max_fin qtd_real
     }
   }"

fun laco_especies :: "sistema_produtivo \<Rightarrow> especie list \<Rightarrow> resultado list \<Rightarrow> resultado list option" where
  \<comment> \<open>\<^verbatim>\<open>for esp in especies_db\<close>, with \<^verbatim>\<open>resultados\<close> as the accumulator.\<close>
  "laco_especies sis [] resultados = Some resultados"
| "laco_especies sis (esp # especies_db) resultados = do {
     r \<leftarrow> simular_especie sis esp;
     laco_especies sis especies_db (resultados @ [r])
   }"

definition resultados_internos :: "sistema_produtivo \<Rightarrow> especie list \<Rightarrow> resultado list option" where
  \<comment> \<open>The list \<^verbatim>\<open>resultados\<close> when the loop ends (line 168).\<close>
  "resultados_internos sis especies_db = laco_especies sis especies_db []"

definition simular_cenarios :: "sistema_produtivo \<Rightarrow> especie list \<Rightarrow> resultado list option" where
  "simular_cenarios sis especies_db = do {
     resultados \<leftarrow> resultados_internos sis especies_db;
     sorted_reverse chave_lucro_mensal (filter is_viavel resultados)
   }"

subsection \<open>The mix optimiser\<close>

text \<open>An entry of \<^verbatim>\<open>model_data\<close> (lines 203--210).\<close>

record dado_modelo =
  nome_m :: string
  lucro_un :: rat
  custo_un :: rat
  peso_final :: rat
  tempo_ciclo :: rat
  max_fisico_m :: int

fun preparar_dados :: "sistema_produtivo \<Rightarrow> especie list \<Rightarrow> dado_modelo list \<Rightarrow> dado_modelo list option" where
  \<comment> \<open>The first loop of \<^verbatim>\<open>otimizar_mix_ideal\<close>, with \<^verbatim>\<open>model_data\<close> as the accumulator.\<close>
  "preparar_dados sis [] model_data = Some model_data"
| "preparar_dados sis (esp # especies_db) model_data = do {
     max_fis \<leftarrow> max_fisico sis esp;
     let receita_un = peso_final_ideal_kg esp * valor_mercado_kg esp;
     custo_fixo_rateado \<leftarrow>
       (if max_fis > 0
        then py_div (custo_fixo_mensal sis * tempo_ciclo_meses esp) (of_int max_fis)
        else Some 0);
     let lucro = receita_un - custo_var_unit esp - custo_fixo_rateado;
     preparar_dados sis especies_db
       (if max_fis > 0
        then model_data @
          [\<lparr> nome_m = nome esp,
             lucro_un = lucro,
             custo_un = custo_var_unit esp,
             peso_final = peso_final_ideal_kg esp,
             tempo_ciclo = tempo_ciclo_meses esp,
             max_fisico_m = max_fis \<rparr>]
        else model_data)
   }"

text \<open>
  The PuLP problem object. A decision variable is identified by the species name it was
  created for (\<^verbatim>\<open>peixes_vars\<close> is a dictionary keyed by name); each has lower bound 0 and
  category Integer. A linear expression is a list of (coefficient, variable) terms.
\<close>

datatype sentido = Menor_igual | Maior_igual

record restricao =
  termos :: "(rat \<times> string) list"
  sentido_r :: sentido
  limite :: rat

record problema_lp =
  variaveis :: "string list"
  objetivo :: "(rat \<times> string) list"
  restricoes :: "restricao list"

definition restricao_orcamento :: "rat \<Rightarrow> dado_modelo list \<Rightarrow> restricao" where
  \<comment> \<open>Line 222.\<close>
  "restricao_orcamento orcamento model_data =
     \<lparr> termos = map (\<lambda>m. (custo_un m, nome_m m)) model_data,
       sentido_r = Menor_igual,
       limite = orcamento \<rparr>"

definition restricao_espaco :: "dado_modelo list \<Rightarrow> restricao option" where
  \<comment> \<open>Line 226: each variable divided by the species' own physical ceiling.\<close>
  "restricao_espaco model_data = do {
     coefs \<leftarrow> those (map (\<lambda>m. py_div 1 (of_int (max_fisico_m m))) model_data);
     Some \<lparr> termos = zip coefs (map nome_m model_data),
            sentido_r = Menor_igual,
            limite = 1 \<rparr>
   }"

definition restricao_meta :: "dado_modelo list \<Rightarrow> rat \<Rightarrow> restricao" where
  \<comment> \<open>Line 230.\<close>
  "restricao_meta model_data meta_minima_kg =
     \<lparr> termos = map (\<lambda>m. (peso_final m, nome_m m)) model_data,
       sentido_r = Maior_igual,
       limite = meta_minima_kg \<rparr>"

definition montar_problema :: "rat \<Rightarrow> dado_modelo list \<Rightarrow> rat \<Rightarrow> problema_lp option" where
  \<comment> \<open>Lines 213--230.\<close>
  "montar_problema orcamento model_data meta_minima_kg = do {
     espaco \<leftarrow> restricao_espaco model_data;
     Some \<lparr> variaveis = map nome_m model_data,
            objetivo = map (\<lambda>m. (lucro_un m, nome_m m)) model_data,
            restricoes =
              [restricao_orcamento orcamento model_data, espaco] @
              (if meta_minima_kg > 0 then [restricao_meta model_data meta_minima_kg] else []) \<rparr>
   }"

text \<open>
  The solver (\<^verbatim>\<open>prob.solve(pulp.PULP_CBC_CMD(msg=0))\<close>) is not part of the program: it
  is a parameter of the model. What the program reads back from it is the status, the
  value of the objective and the value of each variable.
\<close>

datatype lp_status = Optimal | Not_Solved | Infeasible | Unbounded | Undefined

record solucao =
  estado :: lp_status
  valor_objetivo :: rat
  valores :: "string \<Rightarrow> rat"

record item_mix =
  especie_i :: string
  qtd :: int
  peso :: rat
  ciclo :: rat
  ocupacao_i :: rat

record acumulador =
  custo_total_mix :: rat
  mix_a :: "item_mix list"
  biomassa_a :: rat
  max_ciclo :: rat

fun laco_mix :: "(string \<Rightarrow> rat) \<Rightarrow> dado_modelo list \<Rightarrow> acumulador \<Rightarrow> acumulador option" where
  \<comment> \<open>Lines 244--259: \<^verbatim>\<open>for m in model_data\<close>.\<close>
  "laco_mix vals [] a = Some a"
| "laco_mix vals (m # model_data) a =
     (let qtd_m = vals (nome_m m) in
      if qtd_m > 0 then do {
        oc \<leftarrow> py_div qtd_m (of_int (max_fisico_m m));
        laco_mix vals model_data
          \<lparr> custo_total_mix = custo_total_mix a + qtd_m * custo_un m,
            mix_a = mix_a a @
              [\<lparr> especie_i = nome_m m,
                 qtd = py_int qtd_m,
                 peso = qtd_m * peso_final m,
                 ciclo = tempo_ciclo m,
                 ocupacao_i = oc * 100 \<rparr>],
            biomassa_a = biomassa_a a + qtd_m * peso_final m,
            max_ciclo = (if tempo_ciclo m > max_ciclo a then tempo_ciclo m else max_ciclo a) \<rparr>
      } else laco_mix vals model_data a)"

record otimo =
  lucro_total :: rat
  biomassa_total :: rat
  mix :: "item_mix list"
  payback_meses_mix :: rat

datatype resultado_mix = OTIMO otimo | IMPOSSIVEL | ERRO

definition relatorio_otimo :: "sistema_produtivo \<Rightarrow> dado_modelo list \<Rightarrow> solucao \<Rightarrow> resultado_mix option" where
  \<comment> \<open>Lines 238--272: the branch \<^verbatim>\<open>status == 'Optimal'\<close>.\<close>
  "relatorio_otimo sis model_data sol = do {
     a \<leftarrow> laco_mix (valores sol) model_data
            \<lparr> custo_total_mix = 0, mix_a = [], biomassa_a = 0, max_ciclo = 0 \<rparr>;
     let custo_total_mix_final = custo_total_mix a + custo_fixo_mensal sis * max_ciclo a;
     lucro_mensal_mix \<leftarrow>
       (if max_ciclo a > 0 then py_div (valor_objetivo sol) (max_ciclo a) else Some 0);
     payback_mix \<leftarrow>
       (if lucro_mensal_mix > 0 then py_div custo_total_mix_final lucro_mensal_mix else Some 0);
     Some (OTIMO
       \<lparr> lucro_total = valor_objetivo sol,
         biomassa_total = biomassa_a a,
         mix = mix_a a,
         payback_meses_mix = payback_mix \<rparr>)
   }"

definition otimizar_mix_ideal ::
    "(problema_lp \<Rightarrow> solucao) \<Rightarrow> sistema_produtivo \<Rightarrow> especie list \<Rightarrow> rat \<Rightarrow> resultado_mix option" where
  "otimizar_mix_ideal solver sis especies_db meta_minima_kg = do {
     model_data \<leftarrow> preparar_dados sis especies_db [];
     prob \<leftarrow> montar_problema (capital_giro sis) model_data meta_minima_kg;
     let sol = solver prob;
     if estado sol = Optimal then relatorio_otimo sis model_data sol
     else if estado sol = Infeasible then Some IMPOSSIVEL
     else Some ERRO
   }"




subsection \<open>The scenario of the specification and some variations\<close>

definition sistema_exemplo :: sistema_produtivo where
  "sistema_exemplo = SistemaProdutivo 10000 2 5 200 3"

definition especie_A :: especie where
  "especie_A =
     \<lparr> nome = ''A'',
       valor_mercado_kg = 10,
       peso_final_ideal_kg = 1,
       peso_inicial_g = 100,
       taxa_mortalidade = 1 / 10,
       densidade_max_kg_m3 = 50,
       conversao_alimentar = 3 / 2,
       tempo_ciclo_meses = 6,
       custo_alevino_un = 1 / 2,
       custo_racao_kg = 4 \<rparr>"

definition especie_B :: especie where
  \<comment> \<open>Species A sold at a better price.\<close>
  "especie_B = especie_A \<lparr> nome := ''B'', valor_mercado_kg := 12 \<rparr>"

definition especie_C :: especie where
  \<comment> \<open>A cycle so long that the fixed cost of the cycle (12000) exceeds the capital.\<close>
  "especie_C = especie_A \<lparr> nome := ''C'', tempo_ciclo_meses := 60 \<rparr>"

definition especie_gratis :: especie where
  \<comment> \<open>Fingerlings and feed that cost nothing: the variable cost per fish is 0.\<close>
  "especie_gratis = especie_A \<lparr> nome := ''G'', custo_alevino_un := 0, custo_racao_kg := 0 \<rparr>"

definition especie_sem_preco :: especie where
  \<comment> \<open>A market price of 0.\<close>
  "especie_sem_preco = especie_A \<lparr> nome := ''S'', valor_mercado_kg := 0 \<rparr>"

definition sistema_pobre :: sistema_produtivo where
  \<comment> \<open>The same farm with a capital of 2000: 800 are left after the fixed cost of A.\<close>
  "sistema_pobre = SistemaProdutivo 2000 2 5 200 3"

definition sistema_minusculo :: sistema_produtivo where
  \<comment> \<open>One tank of 10 litres: the biomass ceiling is half a kilogram, so no fish of A fits.\<close>
  "sistema_minusculo = SistemaProdutivo 10000 1 (1 / 100) 200 3"

definition solver_exemplo :: "problema_lp \<Rightarrow> solucao" where
  \<comment> \<open>What a solver answers for species A alone on the example farm with a target of
      400 kg: 500 fish, at a unit profit of 1.7.\<close>
  "solver_exemplo prob =
     \<lparr> estado = Optimal,
       valor_objetivo = 850,
       valores = (\<lambda>n. if n = ''A'' then 500 else 0) \<rparr>"


definition dados_A :: dado_modelo where
  \<comment> \<open>The entry of \<^verbatim>\<open>model_data\<close> for species A on the example farm.\<close>
  "dados_A =
     \<lparr> nome_m = ''A'',
       lucro_un = 17 / 10,
       custo_un = 59 / 10,
       peso_final = 1,
       tempo_ciclo = 6,
       max_fisico_m = 500 \<rparr>"

definition problema_A :: "rat \<Rightarrow> problema_lp" where
  \<comment> \<open>The problem built for species A alone on the example farm with a positive target.\<close>
  "problema_A meta =
     \<lparr> variaveis = [''A''],
       objetivo = [(17 / 10, ''A'')],
       restricoes =
         [\<lparr> termos = [(59 / 10, ''A'')], sentido_r = Menor_igual, limite = 10000 \<rparr>,
          \<lparr> termos = [(1 / 500, ''A'')], sentido_r = Menor_igual, limite = 1 \<rparr>,
          \<lparr> termos = [(1, ''A'')], sentido_r = Maior_igual, limite = meta \<rparr>] \<rparr>"

subsection \<open>The payback rule, as the specification words it\<close>

definition payback_spec :: "rat \<Rightarrow> rat \<Rightarrow> rat" where
  \<comment> \<open>Total cost divided by monthly profit if the monthly profit is positive, else 0.\<close>
  "payback_spec total_cost monthly_profit =
     (if monthly_profit > 0 then total_cost / monthly_profit else 0)"

definition selecionados :: "(string \<Rightarrow> rat) \<Rightarrow> dado_modelo list \<Rightarrow> dado_modelo list" where
  \<comment> \<open>The species of the mix: the entries whose variable has a positive value.\<close>
  "selecionados vals model_data = filter (\<lambda>m. vals (nome_m m) > 0) model_data"

section \<open>Properties\<close>

subsection \<open>Python primitives\<close>

lemma those_Some_iff: "those xs = Some ys \<longleftrightarrow> xs = map Some ys"
  by (induction xs arbitrary: ys) (auto split: option.splits)

lemma sorted_reverse_unfold:
  assumes "sorted_reverse key xs = Some ys"
  obtains ks where "map key xs = map Some ks"
    and "ys = map snd (rev (sort_key fst (rev (zip ks xs))))"
  using assms
  by (auto simp: sorted_reverse_def those_Some_iff split: Option.bind_splits)

lemma sorted_reverse_mset:
  assumes "sorted_reverse key xs = Some ys"
  shows "mset ys = mset xs"
proof -
  from assms obtain ks where ks: "map key xs = map Some ks"
    and ys: "ys = map snd (rev (sort_key fst (rev (zip ks xs))))"
    by (rule sorted_reverse_unfold)
  from ks have len: "length ks = length xs"
    by (metis length_map)
  have "mset ys = image_mset snd (mset (zip ks xs))"
    by (simp add: ys)
  also have "\<dots> = mset (map snd (zip ks xs))"
    by simp
  also have "\<dots> = mset xs"
    using len by simp
  finally show ?thesis .
qed



lemma list_all2_member_right:
  "list_all2 P xs ys \<Longrightarrow> y \<in> set ys \<Longrightarrow> \<exists>x\<in>set xs. P x y"
  by (induction rule: list_all2_induct) auto

lemma laco_especies_all2:
  "laco_especies sis db acc = Some out \<Longrightarrow>
     \<exists>rs. out = acc @ rs \<and> list_all2 (\<lambda>esp r. simular_especie sis esp = Some r) db rs"
proof (induction db arbitrary: acc)
  case Nil
  then show ?case by simp
next
  case (Cons esp db)
  from Cons.prems obtain r where r: "simular_especie sis esp = Some r"
    and rest: "laco_especies sis db (acc @ [r]) = Some out"
    by (auto split: Option.bind_splits)
  from Cons.IH [OF rest] obtain rs where "out = (acc @ [r]) @ rs"
    and "list_all2 (\<lambda>esp r. simular_especie sis esp = Some r) db rs"
    by blast
  with r show ?case
    by (intro exI [of _ "r # rs"]) simp
qed


lemma resultados_internos_all2:
  "resultados_internos sis db = Some rs \<Longrightarrow>
     list_all2 (\<lambda>esp r. simular_especie sis esp = Some r) db rs"
  unfolding resultados_internos_def by (drule laco_especies_all2) simp


lemma simular_cenarios_unfold:
  assumes "simular_cenarios sis db = Some rs"
  obtains res where "resultados_internos sis db = Some res"
    and "sorted_reverse chave_lucro_mensal (filter is_viavel res) = Some rs"
  using assms by (auto simp: simular_cenarios_def split: Option.bind_splits)

lemma simular_cenarios_member:
  assumes "simular_cenarios sis db = Some rs" and "r \<in> set rs"
  shows "is_viavel r \<and> (\<exists>esp\<in>set db. simular_especie sis esp = Some r)"
proof -
  from assms(1) obtain res where res: "resultados_internos sis db = Some res"
    and srt: "sorted_reverse chave_lucro_mensal (filter is_viavel res) = Some rs"
    by (rule simular_cenarios_unfold)
  from sorted_reverse_mset [OF srt] have "set rs = set (filter is_viavel res)"
    by (metis set_mset_mset)
  with assms(2) have v: "is_viavel r" and m: "r \<in> set res"
    by auto
  from resultados_internos_all2 [OF res] m
  obtain esp where "esp \<in> set db" "simular_especie sis esp = Some r"
    by (blast dest: list_all2_member_right)
  with v show ?thesis by blast
qed

subsection \<open>One species\<close>


lemma py_div_Some: "py_div a b = Some q \<longleftrightarrow> b \<noteq> 0 \<and> q = a / b"
  by (auto simp: py_div_def)



lemma simular_especie_viavel:
  assumes "simular_especie sis esp = Some (VIAVEL c)"
  shows "\<exists>max_fis max_fin.
    max_fisico sis esp = Some max_fis \<and>
    max_financeiro sis esp = Some max_fin \<and>
    0 < orcamento_operacional sis esp \<and>
    0 < max_fis \<and> 0 < max_fin \<and>
    consolidar sis esp max_fis max_fin (min max_fis max_fin) = Some (VIAVEL c)"
  using assms
  by (auto simp: simular_especie_def Let_def split: Option.bind_splits if_splits)

lemma consolidar_campos:
  assumes "consolidar sis esp max_fis max_fin q = Some (VIAVEL c)"
  shows "dados_tec c = esp"
    and "especie c = nome esp"
    and "qtd_povoamento c = q"
    and "gargalo c = (if max_fin < max_fis then FINANCEIRO else FISICO)"
    and "payback_meses c = (if lucro_mensal c > 0 then custo_total c / lucro_mensal c else 0)"
    and "custo_alevinos c = of_int q * custo_alevino_un esp"
    and "custo_racao c = of_int q * consumo_racao_kg_por_peixe esp * custo_racao_kg esp"
    and "custo_fixo c = custo_fixo_ciclo sis esp"
    and "custo_total c = custo_alevinos c + custo_racao c + custo_fixo c"
    and "ocupacao c = of_int q / of_int max_fis * 100"
    and "max_fis \<noteq> 0"
  using assms
  by (auto simp: consolidar_def Let_def py_div_Some split: Option.bind_splits if_splits)

subsection \<open>The returned ranking\<close>

lemma simular_cenarios_viavel:
  assumes "simular_cenarios sis especies_db = Some rs" and "VIAVEL c \<in> set rs"
  shows "\<exists>max_fis max_fin.
    dados_tec c \<in> set especies_db \<and>
    max_fisico sis (dados_tec c) = Some max_fis \<and>
    max_financeiro sis (dados_tec c) = Some max_fin \<and>
    0 < orcamento_operacional sis (dados_tec c) \<and>
    0 < max_fis \<and> 0 < max_fin \<and>
    consolidar sis (dados_tec c) max_fis max_fin (min max_fis max_fin) = Some (VIAVEL c)"
proof -
  from simular_cenarios_member [OF assms]
  obtain esp where esp: "esp \<in> set especies_db" "simular_especie sis esp = Some (VIAVEL c)"
    by blast
  from simular_especie_viavel [OF esp(2)]
  obtain max_fis max_fin where *:
    "max_fisico sis esp = Some max_fis" "max_financeiro sis esp = Some max_fin"
    "0 < orcamento_operacional sis esp" "0 < max_fis" "0 < max_fin"
    "consolidar sis esp max_fis max_fin (min max_fis max_fin) = Some (VIAVEL c)"
    by blast
  from consolidar_campos(1) [OF *(6)] have "dados_tec c = esp" .
  with esp(1) * show ?thesis by blast
qed





subsection \<open>Evaluation of the example scenarios\<close>

lemma floor_rat_numeral_div: "\<lfloor>numeral a / numeral b :: rat\<rfloor> = numeral a div numeral b"
  by (metis floor_divide_of_int_eq of_int_numeral)

lemmas avaliar_simulador =
  sistema_exemplo_def sistema_pobre_def sistema_minusculo_def especie_A_def especie_B_def especie_C_def
  especie_gratis_def especie_sem_preco_def SistemaProdutivo_def
  max_fisico_def max_financeiro_def biomassa_max_def orcamento_operacional_def
  custo_fixo_ciclo_def custo_var_unit_def custo_alim_un_def consumo_racao_kg_por_peixe_def
  ganho_peso_def peixes_finais_def py_div_def py_int_def floor_rat_numeral_div
  simular_cenarios_def resultados_internos_def simular_especie_def consolidar_def
  sorted_reverse_def Let_def






lemma simular_pobre_A:
  "\<exists>c. simular_cenarios sistema_pobre [especie_A] = Some [VIAVEL c] \<and>
     dados_tec c = especie_A \<and> qtd_povoamento c = 135 \<and> gargalo c = FINANCEIRO \<and>
     custo_total c = 3993 / 2 \<and> lucro_mensal c < 0 \<and> payback_meses c = 0 \<and> ocupacao c = 27"
  by (simp add: avaliar_simulador)

lemma simular_exemplo_ACB:
  "\<exists>cb ca.
     resultados_internos sistema_exemplo [especie_A, especie_C, especie_B]
       = Some [VIAVEL ca, INVIAVEL ''C'' Custo_fixo_excede_capital, VIAVEL cb] \<and>
     simular_cenarios sistema_exemplo [especie_A, especie_C, especie_B]
       = Some [VIAVEL cb, VIAVEL ca] \<and>
     dados_tec ca = especie_A \<and> dados_tec cb = especie_B \<and>
     lucro_mensal ca = 175 / 3 \<and> lucro_mensal cb = 625 / 3"
  by (simp add: avaliar_simulador)











text \<open>
  Claim C4, as amended. Every species is recorded in the internal list
  \<^verbatim>\<open>resultados\<close>, an infeasible one with its reason tag; the list the simulator returns
  is a rearrangement of the viable entries of that list only, so no infeasible entry
  appears in the returned result.
\<close>

theorem viable_only_returned:
  assumes "simular_cenarios sis especies_db = Some rs"
  shows "\<exists>res. resultados_internos sis especies_db = Some res \<and>
    list_all2 (\<lambda>esp r. simular_especie sis esp = Some r) especies_db res \<and>
    mset rs = mset (filter is_viavel res) \<and>
    (\<forall>n m. INVIAVEL n m \<notin> set rs)"
proof -
  from assms obtain res where res: "resultados_internos sis especies_db = Some res"
    and srt: "sorted_reverse chave_lucro_mensal (filter is_viavel res) = Some rs"
    by (rule simular_cenarios_unfold)
  have perm: "mset rs = mset (filter is_viavel res)"
    by (rule sorted_reverse_mset [OF srt])
  then have "set rs = set (filter is_viavel res)"
    by (metis set_mset_mset)
  then have "\<forall>n m. INVIAVEL n m \<notin> set rs"
    by auto
  with res resultados_internos_all2 [OF res] perm show ?thesis
    by blast
qed

text \<open>
  Claim C9 (technology selector). The constructor gives the factor \<open>0.10\<close> and the name
  EXTENSIVO exactly for selector 1, the factor \<open>0.40\<close> and the name SEMI-INTENSIVO exactly
  for selector 2, and the factor \<open>1.00\<close> and the name INTENSIVO for every other integer
  (0, negative values and values above 3 included).
\<close>

theorem selector_to_tier:
  "(fator_sistema (SistemaProdutivo capital tanques vol_tanque fixo opcao) = 10 / 100 \<longleftrightarrow> opcao = 1) \<and>
   (fator_sistema (SistemaProdutivo capital tanques vol_tanque fixo opcao) = 40 / 100 \<longleftrightarrow> opcao = 2) \<and>
   (fator_sistema (SistemaProdutivo capital tanques vol_tanque fixo opcao) = 1 \<longleftrightarrow> opcao \<noteq> 1 \<and> opcao \<noteq> 2) \<and>
   (nome_sistema (SistemaProdutivo capital tanques vol_tanque fixo opcao) = ''EXTENSIVO'' \<longleftrightarrow> opcao = 1) \<and>
   (nome_sistema (SistemaProdutivo capital tanques vol_tanque fixo opcao) = ''SEMI-INTENSIVO'' \<longleftrightarrow> opcao = 2) \<and>
   (nome_sistema (SistemaProdutivo capital tanques vol_tanque fixo opcao) = ''INTENSIVO''
      \<longleftrightarrow> opcao \<noteq> 1 \<and> opcao \<noteq> 2)"
  by (simp add: SistemaProdutivo_def)

text \<open>
  Claim C8 (the concrete scenario of the specification). For species A on the example
  farm: physical ceiling 500, financial ceiling 1491, stocking quantity 500, bottleneck
  physical, 450 survivors, 450 kg sold, total cost 4150, revenue 4500, net profit 350,
  monthly profit \<open>175/3 \<approx> 58.33\<close> and return on investment \<open>700/83 \<approx> 8.43\<close> percent.
\<close>

theorem concrete_scenario:
  "volume_total sistema_exemplo = 10 \<and>
   fator_sistema sistema_exemplo = 1 \<and>
   biomassa_max sistema_exemplo especie_A = 500 \<and>
   max_fisico sistema_exemplo especie_A = Some 500 \<and>
   custo_fixo_ciclo sistema_exemplo especie_A = 1200 \<and>
   orcamento_operacional sistema_exemplo especie_A = 8800 \<and>
   custo_var_unit especie_A = 59 / 10 \<and>
   max_financeiro sistema_exemplo especie_A = Some 1491 \<and>
   peixes_finais 500 especie_A = 450 \<and>
   (\<exists>c. simular_cenarios sistema_exemplo [especie_A] = Some [VIAVEL c] \<and>
      qtd_povoamento c = 500 \<and> gargalo c = FISICO \<and> biomassa_kg c = 450 \<and>
      custo_alevinos c = 250 \<and> custo_racao c = 2700 \<and> custo_fixo c = 1200 \<and>
      custo_total c = 4150 \<and> receita c = 4500 \<and> lucro_liquido c = 350 \<and>
      lucro_mensal c = 175 / 3 \<and> \<bar>lucro_mensal c - 5833 / 100\<bar> < 1 / 200 \<and>
      roi c = 700 / 83 \<and> \<bar>roi c - 843 / 100\<bar> < 1 / 200)"
  by (simp add: avaliar_simulador)



text \<open>
  Claim C4 as stated fails: a species that ends infeasible, for either reason, is absent
  from the returned list.
\<close>

theorem infeasible_dropped_counterexample:
  "simular_especie sistema_exemplo especie_C = Some (INVIAVEL ''C'' Custo_fixo_excede_capital) \<and>
   simular_cenarios sistema_exemplo [especie_C] = Some [] \<and>
   simular_especie sistema_minusculo especie_A = Some (INVIAVEL ''A'' Capital_insuficiente) \<and>
   simular_cenarios sistema_minusculo [especie_A] = Some []"
  by (simp add: avaliar_simulador)

theorem viable_only_returned_witness:
  "\<exists>ca cb.
     resultados_internos sistema_exemplo [especie_A, especie_C, especie_B]
       = Some [VIAVEL ca, INVIAVEL ''C'' Custo_fixo_excede_capital, VIAVEL cb] \<and>
     simular_cenarios sistema_exemplo [especie_A, especie_C, especie_B]
       = Some [VIAVEL cb, VIAVEL ca] \<and>
     INVIAVEL ''C'' Custo_fixo_excede_capital \<notin> set [VIAVEL cb, VIAVEL ca]"
proof -
  from simular_exemplo_ACB obtain cb ca
    where res: "resultados_internos sistema_exemplo [especie_A, especie_C, especie_B]
        = Some [VIAVEL ca, INVIAVEL ''C'' Custo_fixo_excede_capital, VIAVEL cb]"
      and r: "simular_cenarios sistema_exemplo [especie_A, especie_C, especie_B]
        = Some [VIAVEL cb, VIAVEL ca]"
    by blast
  from viable_only_returned [OF r]
  have "INVIAVEL ''C'' Custo_fixo_excede_capital \<notin> set [VIAVEL cb, VIAVEL ca]"
    by blast
  with res r show ?thesis by blast
qed

subsection \<open>The mix optimiser\<close>

lemma laco_mix_acumula:
  "laco_mix vals ms a = Some a' \<Longrightarrow>
     custo_total_mix a' = custo_total_mix a
        + (\<Sum>m\<leftarrow>selecionados vals ms. vals (nome_m m) * custo_un m) \<and>
     biomassa_a a' = biomassa_a a
        + (\<Sum>m\<leftarrow>selecionados vals ms. vals (nome_m m) * peso_final m) \<and>
     max_ciclo a' = fold max (map tempo_ciclo (selecionados vals ms)) (max_ciclo a)"
proof (induction ms arbitrary: a)
  case Nil
  then show ?case by (simp add: selecionados_def)
next
  case (Cons m ms)
  show ?case
  proof (cases "vals (nome_m m) > 0")
    case True
    with Cons.prems obtain oc where
      rest: "laco_mix vals ms
          \<lparr> custo_total_mix = custo_total_mix a + vals (nome_m m) * custo_un m,
            mix_a = mix_a a @
              [\<lparr> especie_i = nome_m m,
                 qtd = py_int (vals (nome_m m)),
                 peso = vals (nome_m m) * peso_final m,
                 ciclo = tempo_ciclo m,
                 ocupacao_i = oc * 100 \<rparr>],
            biomassa_a = biomassa_a a + vals (nome_m m) * peso_final m,
            max_ciclo = (if tempo_ciclo m > max_ciclo a then tempo_ciclo m else max_ciclo a) \<rparr>
        = Some a'"
      by (auto simp: Let_def split: Option.bind_splits)
    have mx: "(if tempo_ciclo m > max_ciclo a then tempo_ciclo m else max_ciclo a)
        = max (tempo_ciclo m) (max_ciclo a)"
      by (simp add: max_def)
    from Cons.IH [OF rest] True show ?thesis
      by (simp add: selecionados_def mx add.assoc)
  next
    case False
    with Cons.prems have "laco_mix vals ms a = Some a'"
      by (simp add: Let_def)
    from Cons.IH [OF this] False show ?thesis
      by (simp add: selecionados_def)
  qed
qed

lemma fold_max_Max: "fold max xs (a::rat) = Max (set (a # xs))"
  by (simp only: Max.set_eq_fold)


lemma relatorio_otimo_campos:
  assumes "relatorio_otimo sis model_data sol = Some (OTIMO r)"
  shows "lucro_total r = valor_objetivo sol"
    and "biomassa_total r
      = (\<Sum>m\<leftarrow>selecionados (valores sol) model_data. valores sol (nome_m m) * peso_final m)"
    and "payback_meses_mix r =
      (let sel = selecionados (valores sol) model_data;
           total_variable_cost = (\<Sum>m\<leftarrow>sel. valores sol (nome_m m) * custo_un m);
           max_cycle = Max (set (0 # map tempo_ciclo sel))
       in payback_spec (total_variable_cost + custo_fixo_mensal sis * max_cycle)
            (if max_cycle > 0 then lucro_total r / max_cycle else 0))"
proof -
  from assms obtain a lm pb where
    a: "laco_mix (valores sol) model_data
          \<lparr> custo_total_mix = 0, mix_a = [], biomassa_a = 0, max_ciclo = 0 \<rparr> = Some a"
    and lm: "(if max_ciclo a > 0 then py_div (valor_objetivo sol) (max_ciclo a) else Some 0) = Some lm"
    and pb: "(if lm > 0 then py_div (custo_total_mix a + custo_fixo_mensal sis * max_ciclo a) lm
              else Some 0) = Some pb"
    and r: "r = \<lparr> lucro_total = valor_objetivo sol, biomassa_total = biomassa_a a,
                  mix = mix_a a, payback_meses_mix = pb \<rparr>"
    by (auto simp: relatorio_otimo_def Let_def split: Option.bind_splits)
  from laco_mix_acumula [OF a]
  have custo: "custo_total_mix a
        = (\<Sum>m\<leftarrow>selecionados (valores sol) model_data. valores sol (nome_m m) * custo_un m)"
    and bio: "biomassa_a a
        = (\<Sum>m\<leftarrow>selecionados (valores sol) model_data. valores sol (nome_m m) * peso_final m)"
    and mc: "max_ciclo a = Max (set (0 # map tempo_ciclo (selecionados (valores sol) model_data)))"
    by (simp_all add: fold_max_Max)
  show "lucro_total r = valor_objetivo sol"
    by (simp add: r)
  show "biomassa_total r
      = (\<Sum>m\<leftarrow>selecionados (valores sol) model_data. valores sol (nome_m m) * peso_final m)"
    by (simp add: r bio)
  have lm': "lm = (if max_ciclo a > 0 then valor_objetivo sol / max_ciclo a else 0)"
    using lm by (auto simp: py_div_def split: if_splits)
  have pb': "pb = payback_spec (custo_total_mix a + custo_fixo_mensal sis * max_ciclo a) lm"
    using pb by (auto simp: py_div_def payback_spec_def split: if_splits)
  show "payback_meses_mix r =
      (let sel = selecionados (valores sol) model_data;
           total_variable_cost = (\<Sum>m\<leftarrow>sel. valores sol (nome_m m) * custo_un m);
           max_cycle = Max (set (0 # map tempo_ciclo sel))
       in payback_spec (total_variable_cost + custo_fixo_mensal sis * max_cycle)
            (if max_cycle > 0 then lucro_total r / max_cycle else 0))"
    unfolding Let_def custo [symmetric] mc [symmetric]
    by (simp add: r pb' lm')
qed

lemma otimizar_OTIMO:
  assumes "otimizar_mix_ideal solver sis especies_db meta = Some (OTIMO r)"
  shows "\<exists>model_data prob.
    preparar_dados sis especies_db [] = Some model_data \<and>
    montar_problema (capital_giro sis) model_data meta = Some prob \<and>
    estado (solver prob) = Optimal \<and>
    relatorio_otimo sis model_data (solver prob) = Some (OTIMO r)"
  using assms
  by (auto simp: otimizar_mix_ideal_def Let_def split: Option.bind_splits if_splits)




lemmas avaliar_mix =
  sistema_exemplo_def especie_A_def SistemaProdutivo_def
  max_fisico_def biomassa_max_def custo_var_unit_def custo_alim_un_def
  consumo_racao_kg_por_peixe_def ganho_peso_def py_div_def py_int_def
  montar_problema_def restricao_orcamento_def restricao_espaco_def restricao_meta_def
  dados_A_def problema_A_def Let_def

lemma preparar_dados_A: "preparar_dados sistema_exemplo [especie_A] [] = Some [dados_A]"
  by (simp add: avaliar_mix)




lemma otimizar_exemplo_A:
  "otimizar_mix_ideal solver_exemplo sistema_exemplo [especie_A] 400 =
     Some (OTIMO
       \<lparr> lucro_total = 850,
         biomassa_total = 500,
         mix = [\<lparr> especie_i = ''A'', qtd = 500, peso = 500, ciclo = 6, ocupacao_i = 100 \<rparr>],
         payback_meses_mix = 498 / 17 \<rparr>)"
  by (simp add: otimizar_mix_ideal_def relatorio_otimo_def solver_exemplo_def avaliar_mix)


text \<open>
  Claim C7 (payback sentinel). For every viable scenario the simulator returns, the
  payback is total cost divided by monthly profit when the monthly profit is positive and
  0 otherwise. The optimiser's payback follows the same rule, with total cost the variable
  cost of the selected species plus the monthly fixed cost times the longest cycle among
  them, and monthly profit the total profit divided by that longest cycle (0 when no
  cycle is positive).
\<close>

theorem payback_sentinel:
  "(\<forall>rs c. simular_cenarios sis especies_db = Some rs \<and> VIAVEL c \<in> set rs \<longrightarrow>
       payback_meses c = payback_spec (custo_total c) (lucro_mensal c)) \<and>
   (\<forall>r. otimizar_mix_ideal solver sis especies_db meta = Some (OTIMO r) \<longrightarrow>
       (\<exists>model_data prob.
          preparar_dados sis especies_db [] = Some model_data \<and>
          montar_problema (capital_giro sis) model_data meta = Some prob \<and>
          lucro_total r = valor_objetivo (solver prob) \<and>
          payback_meses_mix r =
            (let sel = selecionados (valores (solver prob)) model_data;
                 total_variable_cost = (\<Sum>m\<leftarrow>sel. valores (solver prob) (nome_m m) * custo_un m);
                 max_cycle = Max (set (0 # map tempo_ciclo sel))
             in payback_spec (total_variable_cost + custo_fixo_mensal sis * max_cycle)
                  (if max_cycle > 0 then lucro_total r / max_cycle else 0))))"
proof (intro conjI allI impI)
  fix rs c
  assume "simular_cenarios sis especies_db = Some rs \<and> VIAVEL c \<in> set rs"
  then have "simular_cenarios sis especies_db = Some rs" "VIAVEL c \<in> set rs"
    by simp_all
  from simular_cenarios_viavel [OF this] obtain max_fis max_fin
    where "consolidar sis (dados_tec c) max_fis max_fin (min max_fis max_fin) = Some (VIAVEL c)"
    by blast
  from consolidar_campos(5) [OF this]
  show "payback_meses c = payback_spec (custo_total c) (lucro_mensal c)"
    by (simp add: payback_spec_def)
next
  fix r
  assume "otimizar_mix_ideal solver sis especies_db meta = Some (OTIMO r)"
  from otimizar_OTIMO [OF this] obtain model_data prob
    where prep: "preparar_dados sis especies_db [] = Some model_data"
      and prob: "montar_problema (capital_giro sis) model_data meta = Some prob"
      and rel: "relatorio_otimo sis model_data (solver prob) = Some (OTIMO r)"
    by blast
  from prep prob relatorio_otimo_campos(1,3) [OF rel]
  show "\<exists>model_data prob.
          preparar_dados sis especies_db [] = Some model_data \<and>
          montar_problema (capital_giro sis) model_data meta = Some prob \<and>
          lucro_total r = valor_objetivo (solver prob) \<and>
          payback_meses_mix r =
            (let sel = selecionados (valores (solver prob)) model_data;
                 total_variable_cost = (\<Sum>m\<leftarrow>sel. valores (solver prob) (nome_m m) * custo_un m);
                 max_cycle = Max (set (0 # map tempo_ciclo sel))
             in payback_spec (total_variable_cost + custo_fixo_mensal sis * max_cycle)
                  (if max_cycle > 0 then lucro_total r / max_cycle else 0))"
    by blast
qed

theorem payback_sentinel_witness:
  "(\<exists>c. simular_cenarios sistema_pobre [especie_A] = Some [VIAVEL c] \<and>
      lucro_mensal c < 0 \<and> payback_meses c = 0 \<and>
      payback_spec (custo_total c) (lucro_mensal c) = 0) \<and>
   (\<exists>r. otimizar_mix_ideal solver_exemplo sistema_exemplo [especie_A] 400 = Some (OTIMO r) \<and>
      payback_meses_mix r = 498 / 17 \<and>
      payback_spec (2950 + 200 * 6) (850 / 6) = 498 / 17)"
proof -
  from simular_pobre_A obtain c
    where c: "simular_cenarios sistema_pobre [especie_A] = Some [VIAVEL c]"
      and neg: "lucro_mensal c < 0" and zero: "payback_meses c = 0"
    by blast
  have mem: "VIAVEL c \<in> set [VIAVEL c]" by simp
  from payback_sentinel [of sistema_pobre "[especie_A]" solver_exemplo 400] c mem
  have "payback_meses c = payback_spec (custo_total c) (lucro_mensal c)"
    by blast
  with c neg zero have sim: "\<exists>c. simular_cenarios sistema_pobre [especie_A] = Some [VIAVEL c] \<and>
      lucro_mensal c < 0 \<and> payback_meses c = 0 \<and>
      payback_spec (custo_total c) (lucro_mensal c) = 0"
    by auto
  obtain r where r: "otimizar_mix_ideal solver_exemplo sistema_exemplo [especie_A] 400 = Some (OTIMO r)"
    and pb: "payback_meses_mix r = 498 / 17"
    by (simp add: otimizar_exemplo_A)
  from payback_sentinel [of sistema_exemplo "[especie_A]" solver_exemplo 400] r
  obtain md p where md: "preparar_dados sistema_exemplo [especie_A] [] = Some md"
    and p: "montar_problema (capital_giro sistema_exemplo) md 400 = Some p"
    and total: "lucro_total r = valor_objetivo (solver_exemplo p)"
    and rule: "payback_meses_mix r =
      (let sel = selecionados (valores (solver_exemplo p)) md;
           total_variable_cost = (\<Sum>m\<leftarrow>sel. valores (solver_exemplo p) (nome_m m) * custo_un m);
           max_cycle = Max (set (0 # map tempo_ciclo sel))
       in payback_spec (total_variable_cost + custo_fixo_mensal sistema_exemplo * max_cycle)
            (if max_cycle > 0 then lucro_total r / max_cycle else 0))"
    by blast
  from md have md': "md = [dados_A]"
    unfolding preparar_dados_A by simp
  have fixo: "custo_fixo_mensal sistema_exemplo = 200"
    by (simp add: sistema_exemplo_def SistemaProdutivo_def)
  from total have total': "lucro_total r = 850"
    by (simp add: solver_exemplo_def)
  from rule have "payback_meses_mix r = payback_spec (2950 + 200 * 6) (850 / 6)"
    unfolding md' fixo total'
    by (simp add: solver_exemplo_def selecionados_def dados_A_def Let_def)
  with r pb sim show ?thesis
    by auto
qed

end
